theory Spec2Isabelle
  imports
    Complex_Main
    "HOL-Library.AList"
    "HOL-Library.Sublist"
    "HOL-Library.Char_ord"
    "HOL-Library.List_Lexorder"
begin

section \<open>Python values used by the scanner core\<close>

text \<open>
  Strings are lists of 8-bit characters. \<open>str.lower\<close> is modelled on the ASCII letters,
  which is where the fixed tables of the program (severity names, category keywords) live.
  Python floats are modelled as exact real numbers: every constant of the scoring code
  (9.0, 7.0, 5.0, 3.0, 1.5, 1.25, 10.0) is a dyadic rational, and 0.1 is taken at its
  decimal value.
\<close>

definition lower_char :: "char \<Rightarrow> char" where
  "lower_char c =
     (case map_of (zip ''ABCDEFGHIJKLMNOPQRSTUVWXYZ'' ''abcdefghijklmnopqrstuvwxyz'') c of
        Some d \<Rightarrow> d
      | None \<Rightarrow> c)"

definition lower :: "string \<Rightarrow> string" where
  "lower s = map lower_char s"

text \<open>\<open>d.get(key, default)\<close> on an optional entry of a dictionary.\<close>

definition dict_get :: "'a option \<Rightarrow> 'a \<Rightarrow> 'a" where
  "dict_get entry dflt = (case entry of Some v \<Rightarrow> v | None \<Rightarrow> dflt)"

datatype py_error = KeyError string

section \<open>Data model\<close>

text \<open>
  A finding is a dictionary whose keys may be absent; \<open>module\<close> and \<open>cvss_score\<close> are the
  two keys that \<open>_extract_findings\<close> writes into it.
\<close>

record finding =
  title :: "string option"
  description :: "string option"
  severity :: "string option"
  remediation :: "string option"
  module :: "string option"
  cvss_score :: "real option"

text \<open>
  The value stored under one key of the results mapping: something that is not a
  dictionary, a result dictionary (each key optional), or the run metadata.
\<close>

record result_dict =
  status :: "string option"
  error :: "string option"
  findings :: "finding list option"
  technologies :: "string list option"

record metadata =
  meta_target :: string
  modules_executed :: "string list"
  total_findings :: nat

datatype scan_value = NotADict | ResultDict result_dict | Metadata metadata

type_synonym scan_results = "(string \<times> scan_value) list"

section \<open>RiskEngine\<close>

definition OWASP_CATEGORIES :: "(string \<times> string) list" where
  "OWASP_CATEGORIES =
     [(''A01'', ''Broken Access Control''),
      (''A02'', ''Cryptographic Failures''),
      (''A03'', ''Injection''),
      (''A04'', ''Insecure Design''),
      (''A05'', ''Security Misconfiguration''),
      (''A06'', ''Vulnerable and Outdated Components''),
      (''A07'', ''Authentication Failures''),
      (''A08'', ''Software and Data Integrity Failures''),
      (''A09'', ''Logging and Monitoring Failures''),
      (''A10'', ''Server-Side Request Forgery (SSRF)'')]"

definition SEVERITY_SCORES :: "(string \<times> real) list" where
  "SEVERITY_SCORES =
     [(''critical'', 9),
      (''high'', 7),
      (''medium'', 5),
      (''low'', 3),
      (''info'', 1 / 10)]"

text \<open>\<open>SEVERITY_SCORES.get(s, 0)\<close>\<close>

definition severity_score :: "string \<Rightarrow> real" where
  "severity_score s = dict_get (map_of SEVERITY_SCORES s) 0"

text \<open>\<open>finding.get("severity", "info").lower()\<close>\<close>

definition severity_of :: "finding \<Rightarrow> string" where
  "severity_of f = lower (dict_get (severity f) ''info'')"

subsection \<open>\<open>_extract_findings\<close>\<close>

definition tag_finding :: "string \<Rightarrow> finding \<Rightarrow> finding" where
  "tag_finding module_key f =
     f\<lparr>module := Some module_key, cvss_score := Some (severity_score (severity_of f))\<rparr>"

fun extract_findings_loop :: "scan_results \<Rightarrow> finding list \<Rightarrow> finding list" where
  "extract_findings_loop [] findings_list = findings_list"
| "extract_findings_loop ((module_key, module_result) # rest) findings_list =
     (if module_key = ''metadata'' then extract_findings_loop rest findings_list
      else
        (case module_result of
           ResultDict d \<Rightarrow>
             (case findings d of
                Some fs \<Rightarrow>
                  extract_findings_loop rest (findings_list @ map (tag_finding module_key) fs)
              | None \<Rightarrow> extract_findings_loop rest findings_list)
         | _ \<Rightarrow> extract_findings_loop rest findings_list))"

definition extract_findings :: "scan_results \<Rightarrow> finding list" where
  "extract_findings scan = extract_findings_loop scan []"

subsection \<open>\<open>_categorize_by_owasp\<close>\<close>

record owasp_bucket =
  bucket_findings :: "finding list"
  bucket_count :: nat

definition category_keywords :: "(string \<times> string list) list" where
  "category_keywords =
     [(''A01'', [''access'', ''permission'', ''authentication'', ''authorization'', ''broken auth'']),
      (''A02'', [''ssl'', ''tls'', ''encryption'', ''cryptograph'', ''certificate'', ''password'']),
      (''A03'', [''injection'', ''sql'', ''command'', ''ldap'', ''xss'']),
      (''A04'', [''design'', ''flaw'', ''architecture'', ''threat model'']),
      (''A05'', [''misconfiguration'', ''config'', ''default'', ''debug'', ''headers'', ''ports'']),
      (''A06'', [''vulnerable'', ''outdated'', ''component'', ''library'', ''framework'',
                 ''version'', ''cve'', ''plugin'']),
      (''A07'', [''session'', ''mfa'', ''password'', ''credential'', ''factor authentication'']),
      (''A08'', [''integrity'', ''signing'', ''serialization'', ''dependency'', ''artifact'']),
      (''A09'', [''logging'', ''monitoring'', ''detection'', ''alerting'']),
      (''A10'', [''ssrf'', ''request forgery'', ''redirect''])]"

text \<open>\<open>(finding.get("title", "") + " " + finding.get("description", "")).lower()\<close>\<close>

definition finding_text :: "finding \<Rightarrow> string" where
  "finding_text f = lower (dict_get (title f) '''' @ '' '' @ dict_get (description f) '''')"

text \<open>\<open>any(keyword in finding_text for keyword in keywords)\<close>\<close>

definition any_keyword_in :: "string list \<Rightarrow> string \<Rightarrow> bool" where
  "any_keyword_in keywords text = list_ex (\<lambda>keyword. sublist keyword text) keywords"

text \<open>
  The inner loop over \<open>category_keywords.items()\<close> with its \<open>break\<close>: the code of the first
  category that matches, or \<open>None\<close> when the flag \<open>mapped\<close> stays false.
\<close>

fun first_match :: "(string \<times> string list) list \<Rightarrow> string \<Rightarrow> string option" where
  "first_match [] text = None"
| "first_match ((owasp_code, keywords) # rest) text =
     (if any_keyword_in keywords text then Some owasp_code else first_match rest text)"

definition assigned_category :: "finding \<Rightarrow> string" where
  "assigned_category f =
     (case first_match category_keywords (finding_text f) of
        Some owasp_code \<Rightarrow> owasp_code
      | None \<Rightarrow> ''A05'')"

text \<open>
  \<open>owasp_mapping[code]["findings"].append(finding); owasp_mapping[code]["count"] += 1\<close>
\<close>

definition bucket_add :: "finding \<Rightarrow> owasp_bucket \<Rightarrow> owasp_bucket" where
  "bucket_add f b =
     b\<lparr>bucket_findings := bucket_findings b @ [f], bucket_count := bucket_count b + 1\<rparr>"

definition empty_owasp_mapping :: "(string \<times> owasp_bucket) list" where
  "empty_owasp_mapping =
     map (\<lambda>(owasp, name). (owasp, \<lparr>bucket_findings = [], bucket_count = 0\<rparr>)) OWASP_CATEGORIES"

fun categorize_loop ::
  "finding list \<Rightarrow> (string \<times> owasp_bucket) list \<Rightarrow> (string \<times> owasp_bucket) list" where
  "categorize_loop [] owasp_mapping = owasp_mapping"
| "categorize_loop (f # rest) owasp_mapping =
     categorize_loop rest (AList.map_entry (assigned_category f) (bucket_add f) owasp_mapping)"

definition categorize_by_owasp :: "finding list \<Rightarrow> (string \<times> owasp_bucket) list" where
  "categorize_by_owasp findings_list = categorize_loop findings_list empty_owasp_mapping"

subsection \<open>\<open>_calculate_overall_score\<close>\<close>

fun weighted_sum_loop :: "finding list \<Rightarrow> real \<Rightarrow> real" where
  "weighted_sum_loop [] weighted_sum = weighted_sum"
| "weighted_sum_loop (f # rest) weighted_sum =
     (let sev = severity_of f;
          weight = (if sev = ''critical'' then 3 / 2 else 1)
      in weighted_sum_loop rest (weighted_sum + severity_score sev * weight))"

definition calculate_overall_score :: "finding list \<Rightarrow> real" where
  "calculate_overall_score findings_list =
     (if findings_list = [] then 0
      else
        (let average_score = weighted_sum_loop findings_list 0
                               / (real (length findings_list) * (5 / 4))
         in min average_score 10))"

subsection \<open>\<open>_get_severity_breakdown\<close>\<close>

fun severity_breakdown_loop :: "finding list \<Rightarrow> (string \<times> nat) list \<Rightarrow> (string \<times> nat) list" where
  "severity_breakdown_loop [] breakdown = breakdown"
| "severity_breakdown_loop (f # rest) breakdown =
     severity_breakdown_loop rest (AList.map_entry (severity_of f) Suc breakdown)"

definition get_severity_breakdown :: "finding list \<Rightarrow> (string \<times> nat) list" where
  "get_severity_breakdown findings_list =
     severity_breakdown_loop findings_list
       [(''critical'', 0), (''high'', 0), (''medium'', 0), (''low'', 0), (''info'', 0)]"

subsection \<open>\<open>_get_owasp_mapping\<close>\<close>

record finding_summary =
  summary_title :: string
  summary_severity :: string
  summary_module :: string

record owasp_report =
  owasp_name :: string
  owasp_count :: nat
  owasp_findings :: "finding_summary list"

text \<open>\<open>f["title"]\<close>, \<open>f["severity"]\<close>, \<open>f["module"]\<close>: an absent key raises.\<close>

definition summarize :: "finding \<Rightarrow> py_error + finding_summary" where
  "summarize f =
     (case title f of
        None \<Rightarrow> Inl (KeyError ''title'')
      | Some t \<Rightarrow>
          (case severity f of
             None \<Rightarrow> Inl (KeyError ''severity'')
           | Some s \<Rightarrow>
               (case module f of
                  None \<Rightarrow> Inl (KeyError ''module'')
                | Some m \<Rightarrow>
                    Inr \<lparr>summary_title = t, summary_severity = s, summary_module = m\<rparr>)))"

fun summarize_all :: "finding list \<Rightarrow> py_error + finding_summary list" where
  "summarize_all [] = Inr []"
| "summarize_all (f # rest) =
     (case summarize f of
        Inl e \<Rightarrow> Inl e
      | Inr s \<Rightarrow> (case summarize_all rest of Inl e \<Rightarrow> Inl e | Inr ss \<Rightarrow> Inr (s # ss)))"

fun get_owasp_mapping_loop ::
  "(string \<times> string) list \<Rightarrow> (string \<times> owasp_bucket) list
     \<Rightarrow> py_error + (string \<times> owasp_report) list" where
  "get_owasp_mapping_loop [] owasp_mapping = Inr []"
| "get_owasp_mapping_loop ((code, category_name) # rest) owasp_mapping =
     (case map_of owasp_mapping code of
        None \<Rightarrow> Inl (KeyError code)
      | Some b \<Rightarrow>
          (case summarize_all (take 3 (bucket_findings b)) of
             Inl e \<Rightarrow> Inl e
           | Inr top3 \<Rightarrow>
               (case get_owasp_mapping_loop rest owasp_mapping of
                  Inl e \<Rightarrow> Inl e
                | Inr mapping \<Rightarrow>
                    Inr ((code, \<lparr>owasp_name = category_name, owasp_count = bucket_count b,
                                 owasp_findings = top3\<rparr>) # mapping))))"

definition get_owasp_mapping ::
  "(string \<times> owasp_bucket) list \<Rightarrow> py_error + (string \<times> owasp_report) list" where
  "get_owasp_mapping owasp_mapping = get_owasp_mapping_loop OWASP_CATEGORIES owasp_mapping"

subsection \<open>\<open>_get_risk_level\<close>\<close>

definition get_risk_level :: "real \<Rightarrow> string" where
  "get_risk_level score =
     (if score \<ge> 8 then ''Critical''
      else if score \<ge> 6 then ''High''
      else if score \<ge> 4 then ''Medium''
      else if score \<ge> 2 then ''Low''
      else ''Minimal'')"

subsection \<open>\<open>_get_recommendations\<close>\<close>

record recommendation =
  priority :: string
  rec_finding :: "string option"
  action :: string

definition get_recommendations :: "finding list \<Rightarrow> recommendation list" where
  "get_recommendations findings_list =
     (let critical_findings =
            filter (\<lambda>f. lower (dict_get (severity f) '''') = ''critical'') findings_list;
          high_findings =
            filter (\<lambda>f. lower (dict_get (severity f) '''') = ''high'') findings_list
      in map (\<lambda>f. \<lparr>priority = ''CRITICAL'', rec_finding = title f,
                    action = dict_get (remediation f) ''Address immediately''\<rparr>)
             (take 5 critical_findings)
         @ map (\<lambda>f. \<lparr>priority = ''HIGH'', rec_finding = title f,
                      action = dict_get (remediation f) ''Address as soon as possible''\<rparr>)
               (take 5 high_findings))"

subsection \<open>\<open>calculate_risk\<close>\<close>

record risk_report =
  overall_score :: real
  severity_breakdown :: "(string \<times> nat) list"
  owasp_mapping :: "(string \<times> owasp_report) list"
  risk_level :: string
  recommendations :: "recommendation list"

definition calculate_risk :: "scan_results \<Rightarrow> py_error + risk_report" where
  "calculate_risk scan =
     (let findings_list = extract_findings scan;
          buckets = categorize_by_owasp findings_list;
          score = calculate_overall_score findings_list
      in (case get_owasp_mapping buckets of
            Inl e \<Rightarrow> Inl e
          | Inr mapping \<Rightarrow>
              Inr \<lparr>overall_score = score,
                   severity_breakdown = get_severity_breakdown findings_list,
                   owasp_mapping = mapping,
                   risk_level = get_risk_level score,
                   recommendations = get_recommendations findings_list\<rparr>))"

subsection \<open>Auxiliary notions for the properties of the RiskEngine\<close>

text \<open>The number of findings whose lower-cased severity is \<open>s\<close>.\<close>

definition sev_count :: "string \<Rightarrow> finding list \<Rightarrow> nat" where
  "sev_count s fl = length (filter (\<lambda>f. severity_of f = s) fl)"

text \<open>A finding that carries the three keys read by \<open>_get_owasp_mapping\<close>.\<close>

definition summarizable :: "finding \<Rightarrow> bool" where
  "summarizable f \<longleftrightarrow> title f \<noteq> None \<and> severity f \<noteq> None \<and> module f \<noteq> None"

section \<open>Cache\<close>

subsection \<open>\<open>CacheManager\<close>\<close>

text \<open>
  The cache has two tiers: the dictionary \<open>memory_cache\<close> and the table \<open>cache\<close> of the
  SQLite database, whose primary key is \<open>cache_key\<close>. Both are association lists here.
  \<open>time.time()\<close> is the parameter \<open>now\<close> of each operation. The column \<open>data\<close> holds the
  text \<open>json.dumps(data)\<close>; \<open>json.dumps\<close> and \<open>json.loads\<close> are parameters.

  Every access to the database sits in a \<open>try\<close> block that catches all exceptions. The
  parameter \<open>db_ok\<close> of an operation says that no exception is raised inside that block
  (by \<open>sqlite3\<close> or by the JSON conversion); the statements of one block run in one
  transaction, so a block that raises leaves the table unchanged.
\<close>

record 'v mem_entry =
  entry_data :: 'v
  entry_expires_at :: real
  entry_created_at :: "real option"
  entry_hit_count :: int

record 's db_row =
  row_data :: 's
  row_ttl_seconds :: real
  row_created_at :: real
  row_expires_at :: real
  row_hit_count :: int

record ('k, 'v, 's) cache_manager =
  memory_cache :: "('k \<times> 'v mem_entry) list"
  db :: "('k \<times> 's db_row) list"

definition cache_set ::
  "('v \<Rightarrow> 's) \<Rightarrow> bool \<Rightarrow> real \<Rightarrow> ('k, 'v, 's) cache_manager \<Rightarrow> 'k \<Rightarrow> 'v \<Rightarrow> real
     \<Rightarrow> bool \<times> ('k, 'v, 's) cache_manager" where
  "cache_set json_dumps db_ok now c cache_key data ttl_seconds =
     (let created_at = now;
          expires_at = created_at + ttl_seconds;
          c1 = c\<lparr>memory_cache :=
                   AList.update cache_key
                     \<lparr>entry_data = data, entry_expires_at = expires_at,
                      entry_created_at = Some created_at, entry_hit_count = 0\<rparr>
                     (memory_cache c)\<rparr>
      in if db_ok
         then (True,
               c1\<lparr>db := AList.update cache_key
                           \<lparr>row_data = json_dumps data, row_ttl_seconds = ttl_seconds,
                            row_created_at = created_at, row_expires_at = expires_at,
                            row_hit_count = 0\<rparr>
                           (db c1)\<rparr>)
         else (False, c1))"

text \<open>The second half of \<open>get\<close>: the lookup in the database.\<close>

definition cache_get_db ::
  "('s \<Rightarrow> 'v) \<Rightarrow> bool \<Rightarrow> real \<Rightarrow> ('k, 'v, 's) cache_manager \<Rightarrow> 'k
     \<Rightarrow> 'v option \<times> ('k, 'v, 's) cache_manager" where
  "cache_get_db json_loads db_ok current_time c cache_key =
     (if \<not> db_ok then (None, c)
      else
        (case map_of (db c) cache_key of
           None \<Rightarrow> (None, c)
         | Some row \<Rightarrow>
             if row_expires_at row > current_time
             then
               (let data = json_loads (row_data row)
                in (Some data,
                    c\<lparr>db := AList.update cache_key
                               (row\<lparr>row_hit_count := row_hit_count row + 1\<rparr>) (db c),
                      memory_cache :=
                        AList.update cache_key
                          \<lparr>entry_data = data, entry_expires_at = row_expires_at row,
                           entry_created_at = None,
                           entry_hit_count = row_hit_count row + 1\<rparr>
                          (memory_cache c)\<rparr>))
             else (None, c\<lparr>db := AList.delete cache_key (db c)\<rparr>)))"

definition cache_get ::
  "('s \<Rightarrow> 'v) \<Rightarrow> bool \<Rightarrow> real \<Rightarrow> ('k, 'v, 's) cache_manager \<Rightarrow> 'k
     \<Rightarrow> 'v option \<times> ('k, 'v, 's) cache_manager" where
  "cache_get json_loads db_ok now c cache_key =
     (let current_time = now
      in (case map_of (memory_cache c) cache_key of
            Some entry \<Rightarrow>
              if entry_expires_at entry > current_time
              then (Some (entry_data entry),
                    c\<lparr>memory_cache :=
                        AList.update cache_key
                          (entry\<lparr>entry_hit_count := entry_hit_count entry + 1\<rparr>)
                          (memory_cache c)\<rparr>)
              else cache_get_db json_loads db_ok current_time
                     (c\<lparr>memory_cache := AList.delete cache_key (memory_cache c)\<rparr>) cache_key
          | None \<Rightarrow> cache_get_db json_loads db_ok current_time c cache_key))"

definition cache_delete ::
  "bool \<Rightarrow> ('k, 'v, 's) cache_manager \<Rightarrow> 'k \<Rightarrow> ('k, 'v, 's) cache_manager" where
  "cache_delete db_ok c cache_key =
     (let c1 = c\<lparr>memory_cache := AList.delete cache_key (memory_cache c)\<rparr>
      in if db_ok then c1\<lparr>db := AList.delete cache_key (db c1)\<rparr> else c1)"

record cache_stats =
  total_entries :: nat
  valid_entries :: nat
  expired_entries :: int
  total_hits :: int
  memory_entries :: nat

text \<open>\<open>get_stats\<close> returns the empty dictionary, here \<open>None\<close>, when the database fails.\<close>

definition get_stats ::
  "bool \<Rightarrow> real \<Rightarrow> ('k, 'v, 's) cache_manager \<Rightarrow> cache_stats option" where
  "get_stats db_ok now c =
     (if \<not> db_ok then None
      else
        (let total = length (db c);
             hits = sum_list (map (\<lambda>(k, row). row_hit_count row) (db c));
             valid = length (filter (\<lambda>(k, row). row_expires_at row > now) (db c))
         in Some \<lparr>total_entries = total, valid_entries = valid,
                  expired_entries = int total - int valid, total_hits = hits,
                  memory_entries = length (memory_cache c)\<rparr>))"

subsection \<open>\<open>APICallCacher._generate_cache_key\<close>\<close>

text \<open>
  \<open>hashlib.md5(...).hexdigest()\<close> and \<open>json.dumps\<close> are parameters. \<open>params\<close> is \<open>None\<close> or
  a dictionary, given by its items in insertion order. \<open>sorted(params.items())\<close> compares
  the pairs; the keys of a dictionary differ pairwise, so the comparison of two items is
  decided by their keys and the result is the stable sort by key.
\<close>

definition generate_cache_key ::
  "(string \<Rightarrow> string) \<Rightarrow> (('k::linorder \<times> 'v) list \<Rightarrow> string) \<Rightarrow> string
     \<Rightarrow> ('k \<times> 'v) list option \<Rightarrow> string \<Rightarrow> string" where
  "generate_cache_key md5_hexdigest json_dumps url params method =
     (let key_string = method @ '':'' @ url
      in (case params of
            None \<Rightarrow> md5_hexdigest key_string
          | Some items \<Rightarrow>
              if items = [] then md5_hexdigest key_string
              else
                (let sorted_params = sort_key fst items
                 in md5_hexdigest (key_string @ '':'' @ json_dumps sorted_params))))"

text \<open>
  \<open>json.dumps\<close> and \<open>json.loads\<close> on strings whose characters need no escaping: the text
  is the string between two double quotes. Used for concrete runs of the cache.
\<close>

definition json_dumps_plain :: "string \<Rightarrow> string" where
  "json_dumps_plain s = CHR 0x22 # s @ [CHR 0x22]"

definition json_loads_plain :: "string \<Rightarrow> string" where
  "json_loads_plain t = butlast (tl t)"

(*DEFS-END*)

section \<open>Properties of the RiskEngine\<close>

subsection \<open>Scores, counts and the result of \<open>calculate_risk\<close>\<close>

lemma severity_score_cases:
  "severity_score s =
     (if s = ''critical'' then 9 else if s = ''high'' then 7 else if s = ''medium'' then 5
      else if s = ''low'' then 3 else if s = ''info'' then 1 / 10 else 0)"
  by (simp add: severity_score_def SEVERITY_SCORES_def dict_get_def)

lemma severity_score_nonneg: "0 \<le> severity_score s"
  by (simp add: severity_score_cases)

lemma weighted_sum_loop_counts:
  "weighted_sum_loop fl acc =
     acc + 27 / 2 * real (sev_count ''critical'' fl) + 7 * real (sev_count ''high'' fl)
         + 5 * real (sev_count ''medium'' fl) + 3 * real (sev_count ''low'' fl)
         + 1 / 10 * real (sev_count ''info'' fl)"
proof (induction fl arbitrary: acc)
  case Nil
  show ?case by (simp add: sev_count_def)
next
  case (Cons f fl)
  show ?case
    by (simp add: Cons.IH sev_count_def severity_score_cases Let_def algebra_simps)
qed

lemma sev_count_total:
  "sev_count ''critical'' fl + sev_count ''high'' fl + sev_count ''medium'' fl
     + sev_count ''low'' fl + sev_count ''info'' fl \<le> length fl"
  by (induction fl) (auto simp: sev_count_def)

lemma severity_breakdown_loop_counts:
  "severity_breakdown_loop fl
     [(''critical'', a), (''high'', b), (''medium'', c), (''low'', d), (''info'', e)] =
     [(''critical'', a + sev_count ''critical'' fl), (''high'', b + sev_count ''high'' fl),
      (''medium'', c + sev_count ''medium'' fl), (''low'', d + sev_count ''low'' fl),
      (''info'', e + sev_count ''info'' fl)]"
proof (induction fl arbitrary: a b c d e)
  case Nil
  show ?case by (simp add: sev_count_def)
next
  case (Cons f fl)
  consider (cr) "severity_of f = ''critical''" | (hi) "severity_of f = ''high''"
    | (me) "severity_of f = ''medium''" | (lo) "severity_of f = ''low''"
    | (inf) "severity_of f = ''info''"
    | (other) "severity_of f \<notin> {''critical'', ''high'', ''medium'', ''low'', ''info''}"
    by blast
  then show ?case
  proof cases
    case cr
    then show ?thesis using Cons.IH [of "Suc a" b c d e] by (simp add: sev_count_def)
  next
    case hi
    then show ?thesis using Cons.IH [of a "Suc b" c d e] by (simp add: sev_count_def)
  next
    case me
    then show ?thesis using Cons.IH [of a b "Suc c" d e] by (simp add: sev_count_def)
  next
    case lo
    then show ?thesis using Cons.IH [of a b c "Suc d" e] by (simp add: sev_count_def)
  next
    case inf
    then show ?thesis using Cons.IH [of a b c d "Suc e"] by (simp add: sev_count_def)
  next
    case other
    then show ?thesis using Cons.IH [of a b c d e] by (auto simp add: sev_count_def)
  qed
qed

lemma weighted_sum_loop_ge: "acc \<le> weighted_sum_loop fl acc"
proof (induction fl arbitrary: acc)
  case Nil
  show ?case by simp
next
  case (Cons f fl)
  have "acc \<le> acc + severity_score (severity_of f) * (if severity_of f = ''critical'' then 3 / 2 else 1)"
    using severity_score_nonneg [of "severity_of f"] by simp
  also have "\<dots> \<le> weighted_sum_loop (f # fl) acc"
    using Cons.IH by (simp add: Let_def)
  finally show ?case .
qed

lemma overall_score_range: "0 \<le> calculate_overall_score fl \<and> calculate_overall_score fl \<le> 10"
proof (cases "fl = []")
  case True
  then show ?thesis by (simp add: calculate_overall_score_def)
next
  case False
  then have "0 < real (length fl) * (5 / 4)" by simp
  moreover have "0 \<le> weighted_sum_loop fl 0" by (rule weighted_sum_loop_ge)
  ultimately have "0 \<le> weighted_sum_loop fl 0 / (real (length fl) * (5 / 4))"
    by (simp only: divide_nonneg_pos)
  with False show ?thesis by (simp add: calculate_overall_score_def Let_def)
qed

lemma calculate_risk_fields:
  assumes "calculate_risk scan = Inr r"
  shows "overall_score r = calculate_overall_score (extract_findings scan)"
    and "severity_breakdown r = get_severity_breakdown (extract_findings scan)"
    and "risk_level r = get_risk_level (calculate_overall_score (extract_findings scan))"
  using assms by (auto simp: calculate_risk_def Let_def split: sum.splits)

lemma map_of_categorize_loop:
  "map_of (categorize_loop fl m) c =
     map_option
       (\<lambda>b. b\<lparr>bucket_findings := bucket_findings b @ filter (\<lambda>f. assigned_category f = c) fl,
               bucket_count := bucket_count b + length (filter (\<lambda>f. assigned_category f = c) fl)\<rparr>)
       (map_of m c)"
proof (induction fl arbitrary: m)
  case Nil
  show ?case by (cases "map_of m c") simp_all
next
  case (Cons f fl)
  show ?case
  proof (cases "assigned_category f = c")
    case True
    then show ?thesis
      by (cases "map_of m c") (simp_all add: Cons.IH map_of_map_entry bucket_add_def)
  next
    case False
    then show ?thesis
      by (cases "map_of m c") (simp_all add: Cons.IH map_of_map_entry)
  qed
qed

lemma map_of_empty_owasp_mapping:
  "c \<in> set (map fst OWASP_CATEGORIES) \<Longrightarrow>
     map_of empty_owasp_mapping c = Some \<lparr>bucket_findings = [], bucket_count = 0\<rparr>"
  by (auto simp: empty_owasp_mapping_def OWASP_CATEGORIES_def)

lemma map_of_categorize_by_owasp:
  assumes "c \<in> set (map fst OWASP_CATEGORIES)"
  shows "map_of (categorize_by_owasp fl) c =
           Some \<lparr>bucket_findings = filter (\<lambda>f. assigned_category f = c) fl,
                 bucket_count = length (filter (\<lambda>f. assigned_category f = c) fl)\<rparr>"
  using assms
  by (simp add: categorize_by_owasp_def map_of_categorize_loop map_of_empty_owasp_mapping)

lemma summarize_all_returns:
  "\<forall>f \<in> set fs. summarizable f \<Longrightarrow> \<exists>ss. summarize_all fs = Inr ss"
proof (induction fs)
  case Nil
  show ?case by simp
next
  case (Cons f fs)
  then obtain ss where "summarize_all fs = Inr ss" by auto
  moreover from Cons.prems have "summarizable f" by simp
  then have "\<exists>s. summarize f = Inr s"
    by (auto simp: summarizable_def summarize_def)
  ultimately show ?case by auto
qed

lemma get_owasp_mapping_loop_returns:
  assumes "\<forall>code \<in> set (map fst cats).
             \<exists>b. map_of m code = Some b \<and> (\<forall>f \<in> set (bucket_findings b). summarizable f)"
  shows "\<exists>r. get_owasp_mapping_loop cats m = Inr r"
  using assms
proof (induction cats)
  case Nil
  show ?case by simp
next
  case (Cons p cats)
  obtain code name where p: "p = (code, name)" by (cases p)
  from Cons.prems p obtain b where b: "map_of m code = Some b"
    "\<forall>f \<in> set (bucket_findings b). summarizable f" by auto
  have "\<forall>f \<in> set (take 3 (bucket_findings b)). summarizable f"
    using b(2) by (meson in_set_takeD)
  then obtain top3 where "summarize_all (take 3 (bucket_findings b)) = Inr top3"
    using summarize_all_returns by blast
  moreover from Cons obtain r where "get_owasp_mapping_loop cats m = Inr r" by auto
  ultimately show ?case using p b(1) by simp
qed

lemma module_tag_finding: "module (tag_finding k f) = Some k"
  by (simp add: tag_finding_def)

lemma extract_findings_loop_module:
  "\<forall>f \<in> set acc. module f \<noteq> None \<Longrightarrow>
     \<forall>f \<in> set (extract_findings_loop scan acc). module f \<noteq> None"
proof (induction scan arbitrary: acc)
  case Nil
  then show ?case by simp
next
  case (Cons p scan)
  obtain k v where p: "p = (k, v)" by (cases p)
  show ?case
  proof (cases "k = ''metadata''")
    case True
    with Cons p show ?thesis by simp
  next
    case False
    show ?thesis
    proof (cases v)
      case NotADict
      with Cons p False show ?thesis by simp
    next
      case (Metadata m)
      with Cons p False show ?thesis by simp
    next
      case (ResultDict d)
      show ?thesis
      proof (cases "findings d")
        case None
        with Cons p False ResultDict show ?thesis by simp
      next
        case (Some fs)
        have "\<forall>f \<in> set (acc @ map (tag_finding k) fs). module f \<noteq> None"
          using Cons.prems by (auto simp: module_tag_finding)
        then have "\<forall>f \<in> set (extract_findings_loop scan (acc @ map (tag_finding k) fs)).
                     module f \<noteq> None"
          by (rule Cons.IH)
        with p False ResultDict Some show ?thesis by simp
      qed
    qed
  qed
qed

lemma calculate_risk_returns:
  assumes "\<forall>f \<in> set (extract_findings scan). title f \<noteq> None \<and> severity f \<noteq> None"
  shows "\<exists>r. calculate_risk scan = Inr r"
proof -
  let ?fl = "extract_findings scan"
  have "\<forall>f \<in> set ?fl. module f \<noteq> None"
    unfolding extract_findings_def by (rule extract_findings_loop_module) simp
  with assms have ok: "\<forall>f \<in> set ?fl. summarizable f"
    by (simp add: summarizable_def)
  have "\<forall>code \<in> set (map fst OWASP_CATEGORIES).
          \<exists>b. map_of (categorize_by_owasp ?fl) code = Some b
             \<and> (\<forall>f \<in> set (bucket_findings b). summarizable f)"
    using ok by (simp add: map_of_categorize_by_owasp)
  then obtain m where "get_owasp_mapping (categorize_by_owasp ?fl) = Inr m"
    unfolding get_owasp_mapping_def using get_owasp_mapping_loop_returns by blast
  then show ?thesis by (simp add: calculate_risk_def Let_def)
qed

lemma weighted_sum_loop_no_critical:
  "\<forall>f \<in> set fl. severity_of f \<noteq> ''critical'' \<Longrightarrow>
     weighted_sum_loop fl acc \<le> acc + 7 * real (length fl)"
proof (induction fl arbitrary: acc)
  case Nil
  show ?case by simp
next
  case (Cons f fl)
  have "severity_score (severity_of f) \<le> 7"
    using Cons.prems by (simp add: severity_score_cases)
  moreover have "weighted_sum_loop fl (acc + severity_score (severity_of f))
                   \<le> acc + severity_score (severity_of f) + 7 * real (length fl)"
    using Cons by simp
  ultimately show ?case using Cons.prems by (simp add: Let_def)
qed

lemma overall_score_no_critical:
  assumes "\<forall>f \<in> set fl. severity_of f \<noteq> ''critical''"
  shows "calculate_overall_score fl \<le> 28 / 5"
proof (cases "fl = []")
  case True
  then show ?thesis by (simp add: calculate_overall_score_def)
next
  case False
  then have pos: "0 < real (length fl)" by simp
  have "weighted_sum_loop fl 0 \<le> 7 * real (length fl)"
    using weighted_sum_loop_no_critical [OF assms, of 0] by simp
  then have "weighted_sum_loop fl 0 / (real (length fl) * (5 / 4)) \<le> 28 / 5"
    using pos by (simp add: field_simps)
  with False show ?thesis by (simp add: calculate_overall_score_def Let_def)
qed

lemma overall_score_single_critical:
  assumes "severity_of f = ''critical''"
  shows "calculate_overall_score [f] = 10"
  using assms by (simp add: calculate_overall_score_def Let_def severity_score_cases)

lemma overall_score_1_2_1:
  assumes "sev_count ''critical'' fl = 1" "sev_count ''high'' fl = 2"
    "sev_count ''medium'' fl = 1" "length fl = 4"
  shows "calculate_overall_score fl = 13 / 2"
    and "get_severity_breakdown fl =
           [(''critical'', 1), (''high'', 2), (''medium'', 1), (''low'', 0), (''info'', 0)]"
proof -
  have z: "sev_count ''low'' fl = 0" "sev_count ''info'' fl = 0"
    using sev_count_total [of fl] assms by simp_all
  have "fl \<noteq> []" using assms(4) by auto
  then show "calculate_overall_score fl = 13 / 2"
    by (simp add: calculate_overall_score_def Let_def weighted_sum_loop_counts assms z)
  show "get_severity_breakdown fl =
           [(''critical'', 1), (''high'', 2), (''medium'', 1), (''low'', 0), (''info'', 0)]"
    by (simp add: get_severity_breakdown_def severity_breakdown_loop_counts assms z)
qed

subsection \<open>Claims about the score\<close>

text \<open>
  C9: for every scan-results input the overall score computed by the engine, and hence the
  \<open>overall_score\<close> of every report that \<open>calculate_risk\<close> returns, lies in the closed
  interval from 0 to 10.
\<close>

theorem overall_score_in_range:
  "0 \<le> calculate_overall_score (extract_findings scan)
   \<and> calculate_overall_score (extract_findings scan) \<le> 10
   \<and> (\<forall>r. calculate_risk scan = Inr r \<longrightarrow> 0 \<le> overall_score r \<and> overall_score r \<le> 10)"
  using overall_score_range [of "extract_findings scan"]
  by (auto simp: calculate_risk_fields(1))

theorem overall_score_in_range_witness:
  "\<exists>r. calculate_risk
          [(''web_app_risk'',
            ResultDict \<lparr>status = Some ''ok'', error = None,
              findings = Some [\<lparr>title = Some ''Directory listing'', description = None,
                                severity = Some ''low'', remediation = None,
                                module = None, cvss_score = None\<rparr>],
              technologies = None\<rparr>)] = Inr r
       \<and> 0 \<le> overall_score r \<and> overall_score r \<le> 10"
proof -
  let ?scan = "[(''web_app_risk'',
            ResultDict \<lparr>status = Some ''ok'', error = None,
              findings = Some [\<lparr>title = Some ''Directory listing'', description = None,
                                severity = Some ''low'', remediation = None,
                                module = None, cvss_score = None\<rparr>],
              technologies = None\<rparr>)]"
  have "\<forall>f \<in> set (extract_findings ?scan). title f \<noteq> None \<and> severity f \<noteq> None"
    by (simp add: extract_findings_def tag_finding_def)
  then obtain r where r: "calculate_risk ?scan = Inr r"
    using calculate_risk_returns by blast
  with overall_score_in_range [of ?scan] show ?thesis by blast
qed

text \<open>
  C10: when no extracted finding has the (lower-cased) severity \<open>critical\<close>, the overall
  score is at most 7.0 / 1.25 = 5.6, so a returned report has a risk level that is neither
  \<open>High\<close> nor \<open>Critical\<close>: it is one of \<open>Minimal\<close>, \<open>Low\<close>, \<open>Medium\<close>.
\<close>

theorem no_critical_finding_bounds_score:
  assumes "\<forall>f \<in> set (extract_findings scan). severity_of f \<noteq> ''critical''"
  shows "calculate_overall_score (extract_findings scan) \<le> 28 / 5
       \<and> (\<forall>r. calculate_risk scan = Inr r \<longrightarrow>
             overall_score r \<le> 28 / 5
           \<and> risk_level r \<noteq> ''High'' \<and> risk_level r \<noteq> ''Critical''
           \<and> risk_level r \<in> {''Minimal'', ''Low'', ''Medium''})"
proof -
  let ?score = "calculate_overall_score (extract_findings scan)"
  have bound: "?score \<le> 28 / 5"
    using assms by (rule overall_score_no_critical)
  then have small: "\<not> ?score \<ge> 8" "\<not> ?score \<ge> 6" by simp_all
  have level: "get_risk_level ?score \<in> {''Minimal'', ''Low'', ''Medium''}"
    by (simp add: get_risk_level_def small)
  then have "get_risk_level ?score \<noteq> ''High''" "get_risk_level ?score \<noteq> ''Critical''"
    by auto
  with bound level show ?thesis
    by (simp add: calculate_risk_fields(1,3))
qed

theorem no_critical_finding_bounds_score_witness:
  "\<exists>r. calculate_risk
          [(''security_config'',
            ResultDict \<lparr>status = Some ''ok'', error = None,
              findings = Some [\<lparr>title = Some ''Missing HSTS header'', description = None,
                                severity = Some ''High'', remediation = None,
                                module = None, cvss_score = None\<rparr>],
              technologies = None\<rparr>)] = Inr r
       \<and> overall_score r \<le> 28 / 5 \<and> risk_level r \<noteq> ''High'' \<and> risk_level r \<noteq> ''Critical''"
proof -
  let ?scan = "[(''security_config'',
            ResultDict \<lparr>status = Some ''ok'', error = None,
              findings = Some [\<lparr>title = Some ''Missing HSTS header'', description = None,
                                severity = Some ''High'', remediation = None,
                                module = None, cvss_score = None\<rparr>],
              technologies = None\<rparr>)]"
  have ex: "extract_findings ?scan =
              [\<lparr>title = Some ''Missing HSTS header'', description = None,
                severity = Some ''High'', remediation = None,
                module = Some ''security_config'', cvss_score = Some 7\<rparr>]"
    by (simp add: extract_findings_def tag_finding_def severity_of_def lower_def lower_char_def
          dict_get_def severity_score_cases)
  have nocrit: "\<forall>f \<in> set (extract_findings ?scan). severity_of f \<noteq> ''critical''"
    by (simp add: ex severity_of_def lower_def lower_char_def dict_get_def)
  have "\<forall>f \<in> set (extract_findings ?scan). title f \<noteq> None \<and> severity f \<noteq> None"
    by (simp add: ex)
  then obtain r where r: "calculate_risk ?scan = Inr r"
    using calculate_risk_returns by blast
  with no_critical_finding_bounds_score [OF nocrit] show ?thesis by blast
qed

text \<open>
  C1: when the scan results hold no finding, \<open>calculate_risk\<close> returns a report with
  \<open>overall_score\<close> 0 and \<open>risk_level\<close> \<open>Minimal\<close>. When they hold exactly one finding and
  its severity is \<open>critical\<close> (compared after lower-casing, as the engine does), every
  returned report has \<open>overall_score\<close> 10, the value 9.0 * 1.5 / 1.25 = 10.8 capped at 10,
  and \<open>risk_level\<close> \<open>Critical\<close>; the report is returned whenever the finding has a title.
\<close>

theorem calculate_risk_empty_and_single_critical:
  "(extract_findings scan0 = [] \<longrightarrow>
      (\<exists>r. calculate_risk scan0 = Inr r \<and> overall_score r = 0 \<and> risk_level r = ''Minimal''))
   \<and> (extract_findings scan1 = [f] \<and> severity_of f = ''critical'' \<longrightarrow>
        min (9 * (3 / 2) / (5 / 4)) 10 = (10 :: real)
      \<and> (\<forall>r. calculate_risk scan1 = Inr r \<longrightarrow>
             overall_score r = 10 \<and> risk_level r = ''Critical'')
      \<and> (title f \<noteq> None \<longrightarrow> (\<exists>r. calculate_risk scan1 = Inr r)))"
proof (intro conjI impI)
  assume e: "extract_findings scan0 = []"
  then have "\<forall>f \<in> set (extract_findings scan0). title f \<noteq> None \<and> severity f \<noteq> None"
    by simp
  then obtain r where r: "calculate_risk scan0 = Inr r"
    using calculate_risk_returns by blast
  have "overall_score r = 0" "risk_level r = ''Minimal''"
    using calculate_risk_fields(1,3) [OF r]
    by (simp_all add: e calculate_overall_score_def get_risk_level_def)
  with r show "\<exists>r. calculate_risk scan0 = Inr r \<and> overall_score r = 0
                 \<and> risk_level r = ''Minimal''"
    by blast
next
  show "min (9 * (3 / 2) / (5 / 4)) 10 = (10 :: real)" by simp
next
  assume a: "extract_findings scan1 = [f] \<and> severity_of f = ''critical''"
  then have score: "calculate_overall_score (extract_findings scan1) = 10"
    by (simp add: overall_score_single_critical)
  show "\<forall>r. calculate_risk scan1 = Inr r \<longrightarrow>
            overall_score r = 10 \<and> risk_level r = ''Critical''"
    by (simp add: calculate_risk_fields(1,3) score get_risk_level_def)
next
  assume a: "extract_findings scan1 = [f] \<and> severity_of f = ''critical''"
    and t: "title f \<noteq> None"
  have "severity f \<noteq> None"
  proof
    assume "severity f = None"
    then have "severity_of f = ''info''"
      by (simp add: severity_of_def dict_get_def lower_def lower_char_def)
    with a show False by simp
  qed
  with a t have "\<forall>g \<in> set (extract_findings scan1). title g \<noteq> None \<and> severity g \<noteq> None"
    by simp
  then show "\<exists>r. calculate_risk scan1 = Inr r"
    by (rule calculate_risk_returns)
qed

theorem calculate_risk_empty_and_single_critical_witness:
  "(\<exists>r. calculate_risk [(''metadata'', NotADict)] = Inr r
        \<and> overall_score r = 0 \<and> risk_level r = ''Minimal'')
   \<and> (\<exists>r. calculate_risk
          [(''web_app_risk'',
            ResultDict \<lparr>status = Some ''ok'', error = None,
              findings = Some [\<lparr>title = Some ''Remote code execution'', description = None,
                                severity = Some ''critical'', remediation = None,
                                module = None, cvss_score = None\<rparr>],
              technologies = None\<rparr>)] = Inr r
        \<and> overall_score r = 10 \<and> risk_level r = ''Critical'')"
proof -
  let ?scan0 = "[(''metadata'', NotADict)]"
  let ?scan1 = "[(''web_app_risk'',
            ResultDict \<lparr>status = Some ''ok'', error = None,
              findings = Some [\<lparr>title = Some ''Remote code execution'', description = None,
                                severity = Some ''critical'', remediation = None,
                                module = None, cvss_score = None\<rparr>],
              technologies = None\<rparr>)]"
  let ?f = "\<lparr>title = Some ''Remote code execution'', description = None,
             severity = Some ''critical'', remediation = None,
             module = Some ''web_app_risk'', cvss_score = Some 9\<rparr>"
  have e0: "extract_findings ?scan0 = []"
    by (simp add: extract_findings_def)
  have e1: "extract_findings ?scan1 = [?f] \<and> severity_of ?f = ''critical''"
    by (simp add: extract_findings_def tag_finding_def severity_of_def lower_def lower_char_def
          dict_get_def severity_score_cases)
  have t: "title ?f \<noteq> None" by simp
  from calculate_risk_empty_and_single_critical [of ?scan0 ?scan1 ?f] e0 e1 t
  show ?thesis by blast
qed

text \<open>
  C2, as stated, does not hold: for three modules that return one critical, two high and
  one medium finding the severity breakdown is as claimed, but the overall score is
  (9.0 * 1.5 + 7.0 + 7.0 + 5.0) / (4 * 1.25) = 32.5 / 5 = 6.5, not 6.7.
\<close>

theorem three_stub_modules_score_counterexample:
  "map_sum id overall_score
     (calculate_risk
        [(''identity_infra'',
          ResultDict \<lparr>status = Some ''ok'', error = None,
            findings = Some [\<lparr>title = Some ''Expired certificate'', description = None,
                              severity = Some ''critical'', remediation = None,
                              module = None, cvss_score = None\<rparr>],
            technologies = None\<rparr>),
         (''security_config'',
          ResultDict \<lparr>status = Some ''ok'', error = None,
            findings = Some [\<lparr>title = Some ''Missing CSP header'', description = None,
                              severity = Some ''high'', remediation = None,
                              module = None, cvss_score = None\<rparr>,
                             \<lparr>title = Some ''Missing HSTS header'', description = None,
                              severity = Some ''high'', remediation = None,
                              module = None, cvss_score = None\<rparr>],
            technologies = None\<rparr>),
         (''threat_intel'',
          ResultDict \<lparr>status = Some ''ok'', error = None,
            findings = Some [\<lparr>title = Some ''Host on a blocklist'', description = None,
                              severity = Some ''medium'', remediation = None,
                              module = None, cvss_score = None\<rparr>],
            technologies = None\<rparr>)]) = Inr (13 / 2)
   \<and> (13 / 2 :: real) \<noteq> 67 / 10"
proof -
  let ?scan = "[(''identity_infra'',
          ResultDict \<lparr>status = Some ''ok'', error = None,
            findings = Some [\<lparr>title = Some ''Expired certificate'', description = None,
                              severity = Some ''critical'', remediation = None,
                              module = None, cvss_score = None\<rparr>],
            technologies = None\<rparr>),
         (''security_config'',
          ResultDict \<lparr>status = Some ''ok'', error = None,
            findings = Some [\<lparr>title = Some ''Missing CSP header'', description = None,
                              severity = Some ''high'', remediation = None,
                              module = None, cvss_score = None\<rparr>,
                             \<lparr>title = Some ''Missing HSTS header'', description = None,
                              severity = Some ''high'', remediation = None,
                              module = None, cvss_score = None\<rparr>],
            technologies = None\<rparr>),
         (''threat_intel'',
          ResultDict \<lparr>status = Some ''ok'', error = None,
            findings = Some [\<lparr>title = Some ''Host on a blocklist'', description = None,
                              severity = Some ''medium'', remediation = None,
                              module = None, cvss_score = None\<rparr>],
            technologies = None\<rparr>)]"
  have ex: "extract_findings ?scan =
      [\<lparr>title = Some ''Expired certificate'', description = None,
        severity = Some ''critical'', remediation = None,
        module = Some ''identity_infra'', cvss_score = Some 9\<rparr>,
       \<lparr>title = Some ''Missing CSP header'', description = None,
        severity = Some ''high'', remediation = None,
        module = Some ''security_config'', cvss_score = Some 7\<rparr>,
       \<lparr>title = Some ''Missing HSTS header'', description = None,
        severity = Some ''high'', remediation = None,
        module = Some ''security_config'', cvss_score = Some 7\<rparr>,
       \<lparr>title = Some ''Host on a blocklist'', description = None,
        severity = Some ''medium'', remediation = None,
        module = Some ''threat_intel'', cvss_score = Some 5\<rparr>]"
    by (simp add: extract_findings_def tag_finding_def severity_of_def lower_def lower_char_def
          dict_get_def severity_score_cases)
  have score: "calculate_overall_score (extract_findings ?scan) = 13 / 2"
    by (rule overall_score_1_2_1(1))
       (simp_all add: ex sev_count_def severity_of_def lower_def lower_char_def dict_get_def)
  have "\<forall>f \<in> set (extract_findings ?scan). title f \<noteq> None \<and> severity f \<noteq> None"
    by (simp add: ex)
  then obtain r where r: "calculate_risk ?scan = Inr r"
    using calculate_risk_returns by blast
  then have "overall_score r = 13 / 2"
    using calculate_risk_fields(1) score by simp
  with r show ?thesis by simp
qed

text \<open>
  C2, amended: for scan results whose modules together contain exactly one critical, two
  high and one medium finding and no others, the severity breakdown is
  critical 1, high 2, medium 1, low 0, info 0 and the overall score is
  (9.0 * 1.5 + 7.0 + 7.0 + 5.0) / (4 * 1.25) = 6.5, in every report that is returned.
\<close>

theorem one_critical_two_high_one_medium:
  assumes "length (extract_findings scan) = 4"
    and "sev_count ''critical'' (extract_findings scan) = 1"
    and "sev_count ''high'' (extract_findings scan) = 2"
    and "sev_count ''medium'' (extract_findings scan) = 1"
  shows "get_severity_breakdown (extract_findings scan) =
           [(''critical'', 1), (''high'', 2), (''medium'', 1), (''low'', 0), (''info'', 0)]
       \<and> calculate_overall_score (extract_findings scan) = 13 / 2
       \<and> (9 * (3 / 2) + 7 + 7 + 5) / (4 * (5 / 4)) = (13 / 2 :: real)
       \<and> (\<forall>r. calculate_risk scan = Inr r \<longrightarrow>
             severity_breakdown r =
               [(''critical'', 1), (''high'', 2), (''medium'', 1), (''low'', 0), (''info'', 0)]
           \<and> overall_score r = 13 / 2)"
proof -
  note facts = overall_score_1_2_1 [OF assms(2) assms(3) assms(4) assms(1)]
  have "(9 * (3 / 2) + 7 + 7 + 5) / (4 * (5 / 4)) = (13 / 2 :: real)" by simp
  with facts show ?thesis
    by (simp add: calculate_risk_fields(1,2))
qed

theorem one_critical_two_high_one_medium_witness:
  "\<exists>r. calculate_risk
          [(''web_app_risk'',
            ResultDict \<lparr>status = Some ''ok'', error = None,
              findings = Some [\<lparr>title = Some ''Stored XSS'', description = None,
                                severity = Some ''high'', remediation = None,
                                module = None, cvss_score = None\<rparr>,
                               \<lparr>title = Some ''SQL injection'', description = None,
                                severity = Some ''critical'', remediation = None,
                                module = None, cvss_score = None\<rparr>,
                               \<lparr>title = Some ''Open redirect'', description = None,
                                severity = Some ''medium'', remediation = None,
                                module = None, cvss_score = None\<rparr>,
                               \<lparr>title = Some ''Weak session cookie'', description = None,
                                severity = Some ''high'', remediation = None,
                                module = None, cvss_score = None\<rparr>],
              technologies = None\<rparr>)] = Inr r
       \<and> severity_breakdown r =
            [(''critical'', 1), (''high'', 2), (''medium'', 1), (''low'', 0), (''info'', 0)]
       \<and> overall_score r = 13 / 2"
proof -
  let ?scan = "[(''web_app_risk'',
            ResultDict \<lparr>status = Some ''ok'', error = None,
              findings = Some [\<lparr>title = Some ''Stored XSS'', description = None,
                                severity = Some ''high'', remediation = None,
                                module = None, cvss_score = None\<rparr>,
                               \<lparr>title = Some ''SQL injection'', description = None,
                                severity = Some ''critical'', remediation = None,
                                module = None, cvss_score = None\<rparr>,
                               \<lparr>title = Some ''Open redirect'', description = None,
                                severity = Some ''medium'', remediation = None,
                                module = None, cvss_score = None\<rparr>,
                               \<lparr>title = Some ''Weak session cookie'', description = None,
                                severity = Some ''high'', remediation = None,
                                module = None, cvss_score = None\<rparr>],
              technologies = None\<rparr>)]"
  have ex: "extract_findings ?scan =
      [\<lparr>title = Some ''Stored XSS'', description = None,
        severity = Some ''high'', remediation = None,
        module = Some ''web_app_risk'', cvss_score = Some 7\<rparr>,
       \<lparr>title = Some ''SQL injection'', description = None,
        severity = Some ''critical'', remediation = None,
        module = Some ''web_app_risk'', cvss_score = Some 9\<rparr>,
       \<lparr>title = Some ''Open redirect'', description = None,
        severity = Some ''medium'', remediation = None,
        module = Some ''web_app_risk'', cvss_score = Some 5\<rparr>,
       \<lparr>title = Some ''Weak session cookie'', description = None,
        severity = Some ''high'', remediation = None,
        module = Some ''web_app_risk'', cvss_score = Some 7\<rparr>]"
    by (simp add: extract_findings_def tag_finding_def severity_of_def lower_def lower_char_def
          dict_get_def severity_score_cases)
  have h: "length (extract_findings ?scan) = 4"
    "sev_count ''critical'' (extract_findings ?scan) = 1"
    "sev_count ''high'' (extract_findings ?scan) = 2"
    "sev_count ''medium'' (extract_findings ?scan) = 1"
    by (simp_all add: ex sev_count_def severity_of_def lower_def lower_char_def dict_get_def)
  have "\<forall>f \<in> set (extract_findings ?scan). title f \<noteq> None \<and> severity f \<noteq> None"
    by (simp add: ex)
  then obtain r where r: "calculate_risk ?scan = Inr r"
    using calculate_risk_returns by blast
  with one_critical_two_high_one_medium [OF h] show ?thesis by blast
qed

text \<open>
  C7, as stated, does not hold: a finding whose severity is none of the five buckets is not
  counted under \<open>info\<close>. For a single finding of severity \<open>urgent\<close> the returned breakdown
  has the count 0 in every bucket.
\<close>

theorem unknown_severity_counted_as_info_counterexample:
  "map_sum id severity_breakdown
     (calculate_risk
        [(''web_app_risk'',
          ResultDict \<lparr>status = Some ''ok'', error = None,
            findings = Some [\<lparr>title = Some ''Odd response'', description = None,
                              severity = Some ''urgent'', remediation = None,
                              module = None, cvss_score = None\<rparr>],
            technologies = None\<rparr>)]) =
   Inr [(''critical'', 0), (''high'', 0), (''medium'', 0), (''low'', 0), (''info'', 0)]"
proof -
  let ?scan = "[(''web_app_risk'',
          ResultDict \<lparr>status = Some ''ok'', error = None,
            findings = Some [\<lparr>title = Some ''Odd response'', description = None,
                              severity = Some ''urgent'', remediation = None,
                              module = None, cvss_score = None\<rparr>],
            technologies = None\<rparr>)]"
  have ex: "extract_findings ?scan =
      [\<lparr>title = Some ''Odd response'', description = None,
        severity = Some ''urgent'', remediation = None,
        module = Some ''web_app_risk'', cvss_score = Some 0\<rparr>]"
    by (simp add: extract_findings_def tag_finding_def severity_of_def lower_def lower_char_def
          dict_get_def severity_score_cases)
  have bd: "get_severity_breakdown (extract_findings ?scan) =
      [(''critical'', 0), (''high'', 0), (''medium'', 0), (''low'', 0), (''info'', 0)]"
    by (simp add: ex get_severity_breakdown_def severity_of_def lower_def lower_char_def
          dict_get_def)
  have "\<forall>f \<in> set (extract_findings ?scan). title f \<noteq> None \<and> severity f \<noteq> None"
    by (simp add: ex)
  then obtain r where r: "calculate_risk ?scan = Inr r"
    using calculate_risk_returns by blast
  then have "severity_breakdown r =
      [(''critical'', 0), (''high'', 0), (''medium'', 0), (''low'', 0), (''info'', 0)]"
    using calculate_risk_fields(2) bd by simp
  with r show ?thesis by simp
qed

text \<open>
  C7, amended: a finding whose lower-cased severity string is none of
  critical, high, medium, low, info is given the derived base score 0 and is counted in no
  bucket of the severity breakdown: the breakdown of a findings list that contains it is
  the breakdown of the list without it, so the \<open>info\<close> count is the number of the other
  findings of severity \<open>info\<close>.
\<close>

theorem unknown_severity_scores_zero_and_is_not_counted:
  assumes "severity_of f \<notin> {''critical'', ''high'', ''medium'', ''low'', ''info''}"
  shows "cvss_score (tag_finding module_key f) = Some 0
       \<and> get_severity_breakdown (pre @ f # post) = get_severity_breakdown (pre @ post)
       \<and> map_of (get_severity_breakdown (pre @ f # post)) ''info''
           = Some (sev_count ''info'' (pre @ post))"
proof -
  have "cvss_score (tag_finding module_key f) = Some 0"
    using assms by (simp add: tag_finding_def severity_score_cases)
  moreover have "sev_count s (pre @ f # post) = sev_count s (pre @ post)"
    if "s \<in> {''critical'', ''high'', ''medium'', ''low'', ''info''}" for s
    using that assms by (auto simp: sev_count_def)
  then have "get_severity_breakdown (pre @ f # post) = get_severity_breakdown (pre @ post)"
    by (simp add: get_severity_breakdown_def severity_breakdown_loop_counts)
  moreover have "map_of (get_severity_breakdown (pre @ post)) ''info''
                   = Some (sev_count ''info'' (pre @ post))"
    by (simp add: get_severity_breakdown_def severity_breakdown_loop_counts)
  ultimately show ?thesis by simp
qed

theorem unknown_severity_scores_zero_and_is_not_counted_witness:
  "cvss_score (tag_finding ''web_app_risk''
       \<lparr>title = Some ''Odd response'', description = None, severity = Some ''urgent'',
        remediation = None, module = None, cvss_score = None\<rparr>) = Some 0
   \<and> get_severity_breakdown
       [\<lparr>title = Some ''Odd response'', description = None, severity = Some ''urgent'',
         remediation = None, module = None, cvss_score = None\<rparr>]
      = get_severity_breakdown []"
proof -
  let ?f = "\<lparr>title = Some ''Odd response'', description = None, severity = Some ''urgent'',
        remediation = None, module = None, cvss_score = None\<rparr>"
  have h: "severity_of ?f \<notin> {''critical'', ''high'', ''medium'', ''low'', ''info''}"
    by (simp add: severity_of_def lower_def lower_char_def dict_get_def)
  from unknown_severity_scores_zero_and_is_not_counted [OF h, of "''web_app_risk''" "[]" "[]"]
  show ?thesis by simp
qed

subsection \<open>Category assignment\<close>

lemma any_keyword_in_iff:
  "any_keyword_in ks text \<longleftrightarrow> (\<exists>k \<in> set ks. \<exists>ps ss. text = ps @ k @ ss)"
  by (simp add: any_keyword_in_def list_ex_iff sublist_def)

lemma first_match_first:
  assumes "\<forall>p \<in> set pre. \<not> any_keyword_in (snd p) text"
    and "any_keyword_in ks text"
  shows "first_match (pre @ (c, ks) # post) text = Some c"
  using assms by (induction pre) auto

lemma first_match_none:
  "\<forall>p \<in> set kws. \<not> any_keyword_in (snd p) text \<Longrightarrow> first_match kws text = None"
  by (induction kws) auto

lemma first_match_in_codes:
  "first_match kws text = Some c \<Longrightarrow> c \<in> set (map fst kws)"
  by (induction kws) (auto split: if_splits)

lemma category_codes: "map fst category_keywords = map fst OWASP_CATEGORIES"
  by (simp add: category_keywords_def OWASP_CATEGORIES_def)

lemma assigned_category_in_codes: "assigned_category f \<in> set (map fst OWASP_CATEGORIES)"
proof (cases "first_match category_keywords (finding_text f)")
  case None
  then have "assigned_category f = ''A05''" by (simp add: assigned_category_def)
  then show ?thesis by (simp add: OWASP_CATEGORIES_def)
next
  case (Some c)
  then have "c \<in> set (map fst category_keywords)" by (rule first_match_in_codes)
  with Some show ?thesis by (simp add: assigned_category_def category_codes)
qed

text \<open>
  C8: category assignment is a function of the finding text. Every finding is assigned one
  of the ten category codes: the first category, in the fixed order A01 .. A10, one of whose
  keywords occurs in the lower-cased text (title, a space, description), also when later
  categories match as well, and A05 when no category matches. After categorisation the
  bucket of each category holds exactly the findings assigned to it, in extraction order,
  and its count is their number, so each finding lies in one bucket only.
\<close>

theorem category_assignment_first_match_wins:
  "assigned_category f \<in> set (map fst OWASP_CATEGORIES)
   \<and> length OWASP_CATEGORIES = 10 \<and> distinct (map fst OWASP_CATEGORIES)
   \<and> (\<forall>pre c ks post.
         category_keywords = pre @ (c, ks) # post
         \<and> (\<exists>k \<in> set ks. sublist k (finding_text f))
         \<and> (\<forall>p \<in> set pre. \<forall>k \<in> set (snd p). \<not> sublist k (finding_text f))
         \<longrightarrow> assigned_category f = c)
   \<and> ((\<forall>p \<in> set category_keywords. \<forall>k \<in> set (snd p). \<not> sublist k (finding_text g))
        \<longrightarrow> assigned_category g = ''A05'')
   \<and> (\<forall>c \<in> set (map fst OWASP_CATEGORIES).
         map_of (categorize_by_owasp fl) c =
           Some \<lparr>bucket_findings = filter (\<lambda>h. assigned_category h = c) fl,
                 bucket_count = length (filter (\<lambda>h. assigned_category h = c) fl)\<rparr>)"
proof (intro conjI allI impI ballI)
  show "assigned_category f \<in> set (map fst OWASP_CATEGORIES)"
    by (rule assigned_category_in_codes)
  show "length OWASP_CATEGORIES = 10" by (simp add: OWASP_CATEGORIES_def)
  show "distinct (map fst OWASP_CATEGORIES)" by (simp add: OWASP_CATEGORIES_def)
next
  fix pre c ks post
  assume a: "category_keywords = pre @ (c, ks) # post
         \<and> (\<exists>k \<in> set ks. sublist k (finding_text f))
         \<and> (\<forall>p \<in> set pre. \<forall>k \<in> set (snd p). \<not> sublist k (finding_text f))"
  then have "\<forall>p \<in> set pre. \<not> any_keyword_in (snd p) (finding_text f)"
    and "any_keyword_in ks (finding_text f)"
    by (simp_all add: any_keyword_in_def list_ex_iff)
  then have "first_match (pre @ (c, ks) # post) (finding_text f) = Some c"
    by (rule first_match_first)
  with a show "assigned_category f = c" by (simp add: assigned_category_def)
next
  assume "\<forall>p \<in> set category_keywords. \<forall>k \<in> set (snd p). \<not> sublist k (finding_text g)"
  then have "\<forall>p \<in> set category_keywords. \<not> any_keyword_in (snd p) (finding_text g)"
    by (simp add: any_keyword_in_def list_ex_iff)
  then have "first_match category_keywords (finding_text g) = None"
    by (rule first_match_none)
  then show "assigned_category g = ''A05''" by (simp add: assigned_category_def)
next
  fix c
  assume "c \<in> set (map fst OWASP_CATEGORIES)"
  then show "map_of (categorize_by_owasp fl) c =
           Some \<lparr>bucket_findings = filter (\<lambda>h. assigned_category h = c) fl,
                 bucket_count = length (filter (\<lambda>h. assigned_category h = c) fl)\<rparr>"
    by (rule map_of_categorize_by_owasp)
qed

theorem category_assignment_first_match_wins_witness:
  "sublist ''password'' (finding_text
       \<lparr>title = Some ''SQL injection'', description = Some ''Password reset form'',
        severity = Some ''high'', remediation = None, module = None, cvss_score = None\<rparr>)
   \<and> sublist ''sql'' (finding_text
       \<lparr>title = Some ''SQL injection'', description = Some ''Password reset form'',
        severity = Some ''high'', remediation = None, module = None, cvss_score = None\<rparr>)
   \<and> assigned_category
       \<lparr>title = Some ''SQL injection'', description = Some ''Password reset form'',
        severity = Some ''high'', remediation = None, module = None, cvss_score = None\<rparr>
      = ''A02''
   \<and> assigned_category
       \<lparr>title = Some ''Odd reply'', description = None,
        severity = Some ''low'', remediation = None, module = None, cvss_score = None\<rparr>
      = ''A05''
   \<and> map_of (categorize_by_owasp
        [\<lparr>title = Some ''SQL injection'', description = Some ''Password reset form'',
          severity = Some ''high'', remediation = None, module = None, cvss_score = None\<rparr>])
        ''A03''
      = Some \<lparr>bucket_findings = [], bucket_count = 0\<rparr>"
proof -
  let ?f = "\<lparr>title = Some ''SQL injection'', description = Some ''Password reset form'',
        severity = Some ''high'', remediation = None, module = None, cvss_score = None\<rparr>"
  let ?g = "\<lparr>title = Some ''Odd reply'', description = None,
        severity = Some ''low'', remediation = None, module = None, cvss_score = None\<rparr>"
  have tf: "finding_text ?f = ''sql injection password reset form''"
    by (simp add: finding_text_def lower_def lower_char_def dict_get_def)
  have tg: "finding_text ?g = ''odd reply ''"
    by (simp add: finding_text_def lower_def lower_char_def dict_get_def)
  have split: "category_keywords =
      [(''A01'', [''access'', ''permission'', ''authentication'', ''authorization'',
                  ''broken auth''])]
      @ (''A02'', [''ssl'', ''tls'', ''encryption'', ''cryptograph'', ''certificate'',
                   ''password''])
      # tl (tl category_keywords)"
    by (simp add: category_keywords_def)
  have pw: "sublist ''password'' (finding_text ?f)"
    unfolding tf by (simp add: sublist_code)
  have sql: "sublist ''sql'' (finding_text ?f)"
    unfolding tf by (simp add: sublist_code)
  have hit: "\<exists>k \<in> set [''ssl'', ''tls'', ''encryption'', ''cryptograph'', ''certificate'',
                   ''password'']. sublist k (finding_text ?f)"
    using pw by simp
  have miss: "\<forall>p \<in> set [(''A01'', [''access'', ''permission'', ''authentication'',
                  ''authorization'', ''broken auth''])].
                \<forall>k \<in> set (snd p). \<not> sublist k (finding_text ?f)"
    unfolding tf by (simp add: sublist_code)
  have none: "\<forall>p \<in> set category_keywords. \<forall>k \<in> set (snd p). \<not> sublist k (finding_text ?g)"
    unfolding tg category_keywords_def by (simp add: sublist_code)
  have a03: "''A03'' \<in> set (map fst OWASP_CATEGORIES)"
    by (simp add: OWASP_CATEGORIES_def)
  note main = category_assignment_first_match_wins [of ?f ?g "[?f]"]
  from main split hit miss have af: "assigned_category ?f = ''A02''" by blast
  from main none have ag: "assigned_category ?g = ''A05''" by blast
  from main a03 have "map_of (categorize_by_owasp [?f]) ''A03'' =
      Some \<lparr>bucket_findings = filter (\<lambda>h. assigned_category h = ''A03'') [?f],
            bucket_count = length (filter (\<lambda>h. assigned_category h = ''A03'') [?f])\<rparr>"
    by blast
  then have "map_of (categorize_by_owasp [?f]) ''A03'' =
      Some \<lparr>bucket_findings = [], bucket_count = 0\<rparr>"
    by (simp add: af)
  with pw sql af ag show ?thesis by blast
qed

(*RISK-END*)

section \<open>Properties of the cache\<close>

subsection \<open>Cache keys\<close>

lemma sort_key_items_unique:
  assumes d1: "distinct (map fst p1)" and d2: "distinct (map fst p2)"
    and eq: "map_of p1 = map_of p2"
  shows "sort_key fst p1 = sort_key fst p2"
proof -
  let ?a = "sort_key fst p1" and ?b = "sort_key fst p2"
  have s: "set p1 = set p2"
    using map_of_inject_set [OF d1 d2] eq by simp
  have inj: "inj_on fst (set p1)" and dist: "distinct p1" "distinct p2"
    using d1 d2 by (simp_all add: distinct_map)
  have "distinct (map fst ?a)" "distinct (map fst ?b)"
    using inj dist s by (simp_all add: distinct_map)
  moreover have "sorted (map fst ?a)" "sorted (map fst ?b)" by simp_all
  moreover have "set (map fst ?a) = set (map fst ?b)" using s by simp
  ultimately have "map fst ?a = map fst ?b"
    by (intro sorted_distinct_set_unique)
  moreover have "inj_on fst (set ?a \<union> set ?b)" using inj s by simp
  ultimately show ?thesis by (simp add: inj_on_map_eq_map)
qed

text \<open>
  C6: cache key generation does not depend on the order of the parameters. For every URL
  and method, two parameter dictionaries that are equal as mappings, whatever the insertion
  order of their items, give the same key string.
\<close>

theorem cache_key_parameter_order_independent:
  assumes "distinct (map fst p1)" and "distinct (map fst p2)" and "map_of p1 = map_of p2"
  shows "generate_cache_key md5_hexdigest json_dumps url (Some p1) method
       = generate_cache_key md5_hexdigest json_dumps url (Some p2) method"
proof -
  have "sort_key fst p1 = sort_key fst p2"
    using assms by (rule sort_key_items_unique)
  moreover have "p1 = [] \<longleftrightarrow> p2 = []"
    using assms(3) by (cases p1; cases p2) (auto simp: fun_eq_iff split: if_splits)
  ultimately show ?thesis by (simp add: generate_cache_key_def Let_def)
qed

theorem cache_key_parameter_order_independent_witness:
  "\<forall>md5_hexdigest json_dumps.
     generate_cache_key md5_hexdigest json_dumps ''https://api.example.org/lookup''
       (Some [(''a'', 1 :: int), (''b'', 2)]) ''GET''
   = generate_cache_key md5_hexdigest json_dumps ''https://api.example.org/lookup''
       (Some [(''b'', 2), (''a'', 1)]) ''GET''"
proof (intro allI)
  fix md5_hexdigest :: "string \<Rightarrow> string" and json_dumps :: "(string \<times> int) list \<Rightarrow> string"
  have d1: "distinct (map fst [(''a'', 1 :: int), (''b'', 2)])" by simp
  have d2: "distinct (map fst [(''b'', 2 :: int), (''a'', 1)])" by simp
  have m: "map_of [(''a'', 1 :: int), (''b'', 2)] = map_of [(''b'', 2), (''a'', 1)]"
    by (auto simp: fun_eq_iff)
  show "generate_cache_key md5_hexdigest json_dumps ''https://api.example.org/lookup''
       (Some [(''a'', 1 :: int), (''b'', 2)]) ''GET''
   = generate_cache_key md5_hexdigest json_dumps ''https://api.example.org/lookup''
       (Some [(''b'', 2), (''a'', 1)]) ''GET''"
    by (rule cache_key_parameter_order_independent [OF d1 d2 m])
qed

subsection \<open>Expiry\<close>

lemma get_after_set_before_expiry:
  assumes "now' < now + ttl_seconds"
  shows "fst (cache_get json_loads ok_get now'
               (snd (cache_set json_dumps ok_set now c k v ttl_seconds)) k) = Some v"
  using assms
  by (cases ok_set) (simp_all add: cache_set_def cache_get_def Let_def update_conv')

lemma get_after_set_expired:
  assumes "now + ttl_seconds \<le> now'"
  shows "cache_get json_loads True now'
           (snd (cache_set json_dumps True now c k v ttl_seconds)) k
         = (None, cache_delete True c k)"
  using assms
  by (simp add: cache_set_def cache_get_def cache_get_db_def cache_delete_def Let_def
        update_conv' delete_update_same)

lemma cache_delete_removes:
  "k \<notin> fst ` set (memory_cache (cache_delete True c k))"
  "k \<notin> fst ` set (db (cache_delete True c k))"
  by (simp_all add: cache_delete_def Let_def delete_notin_dom)

text \<open>
  C5, as stated, does not hold for every run: when the write of \<open>set\<close> to the database
  fails (the value is not JSON serialisable, or SQLite raises), \<open>set\<close> still replaces the
  entry in memory, and the row written by an earlier \<open>set\<close> stays in the table. Here
  \<open>set("k", "old", 1000)\<close> at time 0 succeeds, \<open>set("k", "new", 10)\<close> at time 1 fails in
  the database, and \<open>get("k")\<close> at time 20, after the 10 seconds have elapsed, returns
  \<open>"old"\<close> instead of nothing.
\<close>

theorem get_after_ttl_returns_stale_value_counterexample:
  "fst (cache_get json_loads_plain True 20
          (snd (cache_set json_dumps_plain False 1
                  (snd (cache_set json_dumps_plain True 0
                          \<lparr>memory_cache = [], db = []\<rparr> ''k'' ''old'' 1000))
                  ''k'' ''new'' 10))
          ''k'')
   = Some ''old''"
  by (simp add: cache_set_def cache_get_def cache_get_db_def Let_def
        json_dumps_plain_def json_loads_plain_def)

text \<open>
  C5, amended: for every key \<open>k\<close>, value \<open>v\<close> and \<open>ttl > 0\<close>, \<open>set(k, v, ttl)\<close> followed
  by \<open>get(k)\<close>, at once or at any time before \<open>ttl\<close> seconds have elapsed, returns \<open>v\<close>,
  whether or not the database works. When no exception occurs in the database part of
  \<open>set\<close> and of the later \<open>get\<close>, a \<open>get(k)\<close> once the elapsed time is at least \<open>ttl\<close>
  returns nothing and leaves the cache as \<open>delete(k)\<close> would: the entry is in neither
  tier, and \<open>get_stats\<close> gives what it gives for the cache without it.
\<close>

theorem set_then_get_respects_ttl:
  assumes "0 < ttl_seconds"
  shows "fst (cache_get json_loads ok_get now
               (snd (cache_set json_dumps ok_set now c k v ttl_seconds)) k) = Some v
       \<and> (now' < now + ttl_seconds \<longrightarrow>
            fst (cache_get json_loads ok_get now'
                  (snd (cache_set json_dumps ok_set now c k v ttl_seconds)) k) = Some v)
       \<and> (now + ttl_seconds \<le> now' \<longrightarrow>
            fst (cache_get json_loads True now'
                  (snd (cache_set json_dumps True now c k v ttl_seconds)) k) = None
          \<and> snd (cache_get json_loads True now'
                  (snd (cache_set json_dumps True now c k v ttl_seconds)) k)
              = cache_delete True c k
          \<and> k \<notin> fst ` set (memory_cache
                  (snd (cache_get json_loads True now'
                         (snd (cache_set json_dumps True now c k v ttl_seconds)) k)))
          \<and> k \<notin> fst ` set (db
                  (snd (cache_get json_loads True now'
                         (snd (cache_set json_dumps True now c k v ttl_seconds)) k)))
          \<and> get_stats True now''
               (snd (cache_get json_loads True now'
                      (snd (cache_set json_dumps True now c k v ttl_seconds)) k))
              = get_stats True now'' (cache_delete True c k))"
proof (intro conjI impI)
  from assms have "now < now + ttl_seconds" by simp
  then show "fst (cache_get json_loads ok_get now
               (snd (cache_set json_dumps ok_set now c k v ttl_seconds)) k) = Some v"
    by (rule get_after_set_before_expiry)
next
  assume "now' < now + ttl_seconds"
  then show "fst (cache_get json_loads ok_get now'
                  (snd (cache_set json_dumps ok_set now c k v ttl_seconds)) k) = Some v"
    by (rule get_after_set_before_expiry)
next
  assume e: "now + ttl_seconds \<le> now'"
  note r = get_after_set_expired [OF e, of json_loads json_dumps c k v]
  show "fst (cache_get json_loads True now'
                  (snd (cache_set json_dumps True now c k v ttl_seconds)) k) = None"
    by (simp add: r)
  show "snd (cache_get json_loads True now'
                  (snd (cache_set json_dumps True now c k v ttl_seconds)) k)
              = cache_delete True c k"
    by (simp add: r)
  show "k \<notin> fst ` set (memory_cache
                  (snd (cache_get json_loads True now'
                         (snd (cache_set json_dumps True now c k v ttl_seconds)) k)))"
    by (simp only: r snd_conv cache_delete_removes(1)) simp
  show "k \<notin> fst ` set (db
                  (snd (cache_get json_loads True now'
                         (snd (cache_set json_dumps True now c k v ttl_seconds)) k)))"
    by (simp only: r snd_conv cache_delete_removes(2)) simp
  show "get_stats True now''
               (snd (cache_get json_loads True now'
                      (snd (cache_set json_dumps True now c k v ttl_seconds)) k))
              = get_stats True now'' (cache_delete True c k)"
    by (simp add: r)
qed

theorem set_then_get_respects_ttl_witness:
  "fst (cache_get json_loads_plain True 5
          (snd (cache_set json_dumps_plain True 0 \<lparr>memory_cache = [], db = []\<rparr>
                  ''k'' ''v'' 10)) ''k'') = Some ''v''
   \<and> cache_get json_loads_plain True 10
          (snd (cache_set json_dumps_plain True 0 \<lparr>memory_cache = [], db = []\<rparr>
                  ''k'' ''v'' 10)) ''k''
     = (None, \<lparr>memory_cache = [], db = []\<rparr>)
   \<and> get_stats True 11
          (snd (cache_get json_loads_plain True 10
                  (snd (cache_set json_dumps_plain True 0 \<lparr>memory_cache = [], db = []\<rparr>
                          ''k'' ''v'' 10)) ''k''))
     = Some \<lparr>total_entries = 0, valid_entries = 0, expired_entries = 0, total_hits = 0,
             memory_entries = 0\<rparr>"
proof -
  have pos: "(0 :: real) < 10" by simp
  have before: "(5 :: real) < 0 + 10" and after: "(0 :: real) + 10 \<le> 10" by simp_all
  have del: "cache_delete True \<lparr>memory_cache = [], db = []\<rparr> ''k''
               = (\<lparr>memory_cache = [], db = []\<rparr> :: (string, string, string) cache_manager)"
    by (simp add: cache_delete_def Let_def)
  have stats: "get_stats True 11 (\<lparr>memory_cache = [], db = []\<rparr>
                  :: (string, string, string) cache_manager)
     = Some \<lparr>total_entries = 0, valid_entries = 0, expired_entries = 0, total_hits = 0,
             memory_entries = 0\<rparr>"
    by (simp add: get_stats_def)
  note a = set_then_get_respects_ttl [OF pos, of json_loads_plain True 0 json_dumps_plain
             True "\<lparr>memory_cache = [], db = []\<rparr>" "''k''" "''v''" 5 11]
  note b = set_then_get_respects_ttl [OF pos, of json_loads_plain True 0 json_dumps_plain
             True "\<lparr>memory_cache = [], db = []\<rparr>" "''k''" "''v''" 10 11]
  from a before have 1: "fst (cache_get json_loads_plain True 5
          (snd (cache_set json_dumps_plain True 0 \<lparr>memory_cache = [], db = []\<rparr>
                  ''k'' ''v'' 10)) ''k'') = Some ''v''"
    by blast
  from b after have 2: "fst (cache_get json_loads_plain True 10
          (snd (cache_set json_dumps_plain True 0 \<lparr>memory_cache = [], db = []\<rparr>
                  ''k'' ''v'' 10)) ''k'') = None"
    and 3: "snd (cache_get json_loads_plain True 10
          (snd (cache_set json_dumps_plain True 0 \<lparr>memory_cache = [], db = []\<rparr>
                  ''k'' ''v'' 10)) ''k'') = cache_delete True \<lparr>memory_cache = [], db = []\<rparr> ''k''"
    by blast+
  from 2 3 have 4: "cache_get json_loads_plain True 10
          (snd (cache_set json_dumps_plain True 0 \<lparr>memory_cache = [], db = []\<rparr>
                  ''k'' ''v'' 10)) ''k''
     = (None, \<lparr>memory_cache = [], db = []\<rparr>)"
    by (simp add: del prod_eq_iff)
  from 1 4 stats show ?thesis by simp
qed

(*CACHE-END*)

(*ORCH-END*)

end
